theory Spec2Isabelle
  imports Complex_Main "HOL-Library.Sublist"
begin

section \<open>Data model\<close>

text \<open>
  JavaScript numbers are modelled as \<^typ>\<open>real\<close>: arithmetic is exact, there is no
  rounding, no NaN and no infinity. Strings are \<^typ>\<open>string\<close>. A value of type
  \<open>T | null\<close> is a \<^typ>\<open>'a option\<close>.
\<close>

record BoundingBox =
  x1 :: real
  y1 :: real
  x2 :: real
  y2 :: real

text \<open>
  What the backend returns for one detection (\<open>res.data\<close> is typed \<open>any\<close>; the fields
  read by the client are \<open>label\<close>, \<open>confidence\<close> and \<open>box\<close>).
\<close>

record RawDetection =
  label :: string
  confidence :: real
  box :: BoundingBox

text \<open>
  \<open>interface Detection\<close>: the spread \<open>{ ...d, id: generateId() }\<close> adds the field \<open>id\<close>
  to the fields of \<open>d\<close>. The field is called \<open>det_id\<close> here because \<open>id\<close> is the
  identity function of HOL.
\<close>

record Detection = RawDetection +
  det_id :: string

record HistoryItem =
  h_id :: int
  filename :: string
  timestamp :: string
  detection_count :: int

text \<open>A \<open>File\<close> object is opaque to the client; it is represented by its name.\<close>

type_synonym File = string

text \<open>
  The two forms the image source takes: the object URL made from a chosen file
  (\<open>URL.createObjectURL(selectedFile)\<close>) and the backend URL
  \<open>http://127.0.0.1:8000/images/${id}\<close> of a stored image.
\<close>

datatype ImageSrc = ObjectURL File | ImagesEndpoint int

text \<open>
  The \<open>useState\<close> cells of \<open>App\<close>, in the order of their declaration. The cell
  \<open>file\<close> is called \<open>file_st\<close>, since \<open>file\<close> is a keyword of Isabelle.
\<close>

record AppState =
  file_st :: "File option"
  imageSrc :: "ImageSrc option"
  detections :: "Detection list"
  isLoading :: bool
  imageDimensions :: "real \<times> real"
  history :: "HistoryItem list"
  currentImageId :: "int option"
  selectedId :: "string option"
  confidenceThreshold :: real
  enhanceAccuracy :: bool

text \<open>A request either fails (axios rejects, the \<open>catch\<close> branch runs) or delivers data.\<close>

datatype net_error = RequestFailed

type_synonym 'a response = "net_error + 'a"

record DetectResponse =
  image_id :: int
  dr_detections :: "RawDetection list"

section \<open>The component \<open>App\<close> (frontend/src/App.tsx)\<close>

text \<open>
  JavaScript truthiness of a \<open>string | null\<close> and of a \<open>number | null\<close>: \<open>null\<close>, the
  empty string and \<open>0\<close> are falsy.
\<close>

definition truthy_string :: "string option \<Rightarrow> bool" where
  "truthy_string v = (case v of None \<Rightarrow> False | Some s \<Rightarrow> s \<noteq> [])"

definition truthy_number :: "int option \<Rightarrow> bool" where
  "truthy_number v = (case v of None \<Rightarrow> False | Some n \<Rightarrow> n \<noteq> 0)"

text \<open>
  \<open>data.map((d: any) => ({ ...d, id: generateId() }))\<close>. \<open>generateId\<close> draws from
  \<open>Math.random\<close>; the draws are a parameter \<open>gen\<close>, where \<open>gen k\<close> is the token returned
  by the \<open>k\<close>-th call made during the mapping.
\<close>

definition withId :: "RawDetection \<Rightarrow> string \<Rightarrow> Detection" where
  "withId d i = \<lparr>label = label d, confidence = confidence d, box = box d, det_id = i\<rparr>"

definition mapGenerateId :: "(nat \<Rightarrow> string) \<Rightarrow> RawDetection list \<Rightarrow> Detection list" where
  "mapGenerateId gen ds = map (\<lambda>(k, d). withId d (gen k)) (zip [0..<length ds] ds)"

text \<open>
  \<open>handleKeyDown\<close> (the \<open>useEffect\<close> listener): \<open>key\<close> is \<open>e.key\<close>. The filter compares
  each \<open>d.id\<close> with \<open>selectedId\<close> by \<open>!==\<close>.
\<close>

definition handleKeyDown :: "string \<Rightarrow> AppState \<Rightarrow> AppState" where
  "handleKeyDown key st =
     (if (key = ''Delete'' \<or> key = ''Backspace'') \<and> truthy_string (selectedId st)
      then st\<lparr>detections := filter (\<lambda>d. Some (det_id d) \<noteq> selectedId st) (detections st),
              selectedId := None\<rparr>
      else st)"

text \<open>\<open>fetchHistory\<close>: a failure is logged to the console and changes nothing.\<close>

definition fetchHistory :: "HistoryItem list response \<Rightarrow> AppState \<Rightarrow> AppState" where
  "fetchHistory res st = (case res of Inl e \<Rightarrow> st | Inr data \<Rightarrow> st\<lparr>history := data\<rparr>)"

text \<open>
  \<open>loadHistoryItem\<close>: \<open>setIsLoading(true)\<close> and \<open>setCurrentImageId(id)\<close> run before the
  \<open>try\<close>, \<open>setImageSrc\<close> runs inside it before the request is awaited; \<open>res\<close> is the
  outcome of \<open>GET /annotations/${id}\<close>. The \<open>finally\<close> block runs on both paths. The
  \<open>alert\<close> and \<open>console.error\<close> calls do not touch the state and are left out.
\<close>

definition loadHistoryItem ::
  "(nat \<Rightarrow> string) \<Rightarrow> int \<Rightarrow> RawDetection list response \<Rightarrow> AppState \<Rightarrow> AppState" where
  "loadHistoryItem gen i res st =
     (let st1 = st\<lparr>isLoading := True, currentImageId := Some i\<rparr>;
          st2 = st1\<lparr>imageSrc := Some (ImagesEndpoint i)\<rparr>
      in case res of
           Inl e \<Rightarrow> st2\<lparr>isLoading := False\<rparr>
         | Inr data \<Rightarrow>
             st2\<lparr>detections := mapGenerateId gen data,
                 file_st := None,
                 imageDimensions := (0, 0),
                 isLoading := False\<rparr>)"

text \<open>
  \<open>deleteHistoryItem\<close>: everything happens after the awaited \<open>DELETE /images/${id}\<close>; \<open>res\<close>
  is its outcome.
\<close>

definition deleteHistoryItem :: "int \<Rightarrow> unit response \<Rightarrow> AppState \<Rightarrow> AppState" where
  "deleteHistoryItem i res st =
     (case res of
        Inl e \<Rightarrow> st
      | Inr u \<Rightarrow>
          (let st1 = st\<lparr>history := filter (\<lambda>h. h_id h \<noteq> i) (history st)\<rparr>
           in if currentImageId st = Some i
              then st1\<lparr>imageSrc := None, detections := [], currentImageId := None\<rparr>
              else st1))"

text \<open>
  \<open>handleFileChange\<close>: \<open>files\<close> is \<open>e.target.files\<close> (a \<open>FileList\<close> or \<open>null\<close>); the guard
  asks for a first file.
\<close>

definition handleFileChange :: "File list option \<Rightarrow> AppState \<Rightarrow> AppState" where
  "handleFileChange files st =
     (case files of
        Some (selectedFile # rest) \<Rightarrow>
          st\<lparr>file_st := Some selectedFile,
             imageSrc := Some (ObjectURL selectedFile),
             detections := [],
             imageDimensions := (0, 0),
             currentImageId := None\<rparr>
      | _ \<Rightarrow> st)"

text \<open>
  \<open>handleDetect\<close>: returns at once without a file. \<open>res\<close> is the outcome of
  \<open>POST /detect\<close>; \<open>hist\<close> is the outcome of the \<open>fetchHistory()\<close> started on success.
\<close>

definition handleDetect ::
  "(nat \<Rightarrow> string) \<Rightarrow> DetectResponse response \<Rightarrow> HistoryItem list response
     \<Rightarrow> AppState \<Rightarrow> AppState" where
  "handleDetect gen res hist st =
     (case file_st st of
        None \<Rightarrow> st
      | Some f \<Rightarrow>
          (let st1 = st\<lparr>isLoading := True\<rparr>
           in case res of
                Inl e \<Rightarrow> st1\<lparr>isLoading := False\<rparr>
              | Inr data \<Rightarrow>
                  (fetchHistory hist
                     (st1\<lparr>detections := mapGenerateId gen (dr_detections data),
                          currentImageId := Some (image_id data)\<rparr>))\<lparr>isLoading := False\<rparr>))"

text \<open>
  \<open>saveAnnotations\<close>: \<open>res\<close> is the outcome of \<open>PUT /annotations/${currentImageId}\<close>, whose
  body is the detection list; \<open>hist\<close> is the outcome of the \<open>fetchHistory()\<close> that follows.
\<close>

definition saveAnnotations ::
  "unit response \<Rightarrow> HistoryItem list response \<Rightarrow> AppState \<Rightarrow> AppState" where
  "saveAnnotations res hist st =
     (if \<not> truthy_number (currentImageId st) then st
      else case res of Inl e \<Rightarrow> st | Inr u \<Rightarrow> fetchHistory hist st)"

text \<open>The slider's \<open>onChange\<close>: \<open>setConfidenceThreshold(parseFloat(e.target.value))\<close>.\<close>

definition setConfidenceThreshold :: "real \<Rightarrow> AppState \<Rightarrow> AppState" where
  "setConfidenceThreshold t st = st\<lparr>confidenceThreshold := t\<rparr>"

text \<open>\<open>visibleDetections\<close>, recomputed at every render from the state.\<close>

definition visibleDetections :: "AppState \<Rightarrow> Detection list" where
  "visibleDetections st =
     filter (\<lambda>d. confidence d \<ge> confidenceThreshold st) (detections st)"

section \<open>The component \<open>AnnotationCanvas\<close> (under frontend/src/components)\<close>

text \<open>
  The attributes of a Konva \<open>Rect\<close> node that the handlers read (\<open>node.x()\<close>, \<open>node.y()\<close>,
  \<open>node.width()\<close>, \<open>node.height()\<close>, \<open>node.scaleX()\<close>, \<open>node.scaleY()\<close>). A node is a child
  of the layer of the stage, so these are in the stage's local (image) coordinates.
\<close>

record Node =
  node_x :: real
  node_y :: real
  node_width :: real
  node_height :: real
  node_scaleX :: real
  node_scaleY :: real

text \<open>
  The \<open>Rect\<close> rendered for a detection: \<open>x={d.box.x1}\<close>, \<open>y={d.box.y1}\<close>,
  \<open>width={d.box.x2 - d.box.x1}\<close>, \<open>height={d.box.y2 - d.box.y1}\<close>; the scale of a fresh
  node is 1.
\<close>

definition rectNode :: "Detection \<Rightarrow> Node" where
  "rectNode d =
     \<lparr>node_x = x1 (box d), node_y = y1 (box d),
      node_width = x2 (box d) - x1 (box d), node_height = y2 (box d) - y1 (box d),
      node_scaleX = 1, node_scaleY = 1\<rparr>"

text \<open>
  The stroke of that \<open>Rect\<close>: \<open>strokeWidth={selectedId === d.id ? 4 : 3}\<close>.
\<close>

definition strokeWidth :: "string option \<Rightarrow> Detection \<Rightarrow> real" where
  "strokeWidth selectedId' d = (if selectedId' = Some (det_id d) then 4 else 3)"

text \<open>
  \<open>handleDragEnd\<close> and \<open>handleTransformEnd\<close>: \<open>node\<close> is \<open>e.target\<close>, \<open>dets\<close> is the
  \<open>detections\<close> prop of the canvas. The result is the node with its scale reset to 1 and
  the list handed to \<open>setDetections\<close>.
\<close>

definition handleDragEnd :: "Node \<Rightarrow> string \<Rightarrow> Detection list \<Rightarrow> Node \<times> Detection list" where
  "handleDragEnd node i dets =
     (let newBox = \<lparr>x1 = node_x node,
                    y1 = node_y node,
                    x2 = node_x node + node_width node * node_scaleX node,
                    y2 = node_y node + node_height node * node_scaleY node\<rparr>;
          node' = node\<lparr>node_scaleX := 1, node_scaleY := 1\<rparr>;
          newDetections = map (\<lambda>d. if det_id d = i then d\<lparr>box := newBox\<rparr> else d) dets
      in (node', newDetections))"

definition handleTransformEnd ::
  "Node \<Rightarrow> string \<Rightarrow> Detection list \<Rightarrow> Node \<times> Detection list" where
  "handleTransformEnd node i dets =
     (let scaleX = node_scaleX node;
          scaleY = node_scaleY node;
          newBox = \<lparr>x1 = node_x node,
                    y1 = node_y node,
                    x2 = node_x node + node_width node * scaleX,
                    y2 = node_y node + node_height node * scaleY\<rparr>;
          node' = node\<lparr>node_scaleX := 1, node_scaleY := 1\<rparr>;
          newDetections = map (\<lambda>d. if det_id d = i then d\<lparr>box := newBox\<rparr> else d) dets
      in (node', newDetections))"

text \<open>
  How \<open>App\<close> instantiates the canvas (App.tsx, the \<open>AnnotationCanvas\<close> element): the
  prop \<open>detections\<close> is \<open>visibleDetections\<close> and the prop \<open>setDetections\<close> is the setter
  of the canonical list. A commit therefore stores what the handler computed from the
  visible list.
\<close>

definition App_onDragEnd :: "Node \<Rightarrow> string \<Rightarrow> AppState \<Rightarrow> AppState" where
  "App_onDragEnd node i st =
     st\<lparr>detections := snd (handleDragEnd node i (visibleDetections st))\<rparr>"

definition App_onTransformEnd :: "Node \<Rightarrow> string \<Rightarrow> AppState \<Rightarrow> AppState" where
  "App_onTransformEnd node i st =
     st\<lparr>detections := snd (handleTransformEnd node i (visibleDetections st))\<rparr>"

text \<open>
  The attributes of the Konva stage that \<open>handleWheel\<close> reads and writes: its position
  (\<open>stage.x()\<close>, \<open>stage.y()\<close>) and its scale (\<open>stage.scaleX()\<close>, and \<open>stage.scale({x, y})\<close>).
\<close>

record Stage =
  stage_x :: real
  stage_y :: real
  stage_scaleX :: real
  stage_scaleY :: real

text \<open>
  \<open>handleWheel\<close>: \<open>stageRef\<close> is \<open>stageRef.current\<close>, \<open>pointer\<close> is
  \<open>stage.getPointerPosition()\<close> and \<open>deltaY\<close> is \<open>e.evt.deltaY\<close>. Both early returns leave
  everything as it was. Division by \<open>oldScale = 0\<close> is \<open>0\<close> in HOL and not what
  JavaScript computes; no statement below uses the handler at scale 0.
\<close>

definition handleWheel :: "Stage option \<Rightarrow> (real \<times> real) option \<Rightarrow> real \<Rightarrow> Stage option" where
  "handleWheel stageRef pointer deltaY =
     (case stageRef of
        None \<Rightarrow> None
      | Some stage \<Rightarrow>
          (case pointer of
             None \<Rightarrow> Some stage
           | Some (px, py) \<Rightarrow>
               (let scaleBy = 1.1;
                    oldScale = stage_scaleX stage;
                    mousePointTo_x = (px - stage_x stage) / oldScale;
                    mousePointTo_y = (py - stage_y stage) / oldScale;
                    newScale0 = (if deltaY > 0 then oldScale / scaleBy else oldScale * scaleBy);
                    newScale1 = (if newScale0 < 0.1 then 0.1 else newScale0);
                    newScale = (if newScale1 > 5 then 5 else newScale1)
                in Some (stage\<lparr>stage_scaleX := newScale,
                                stage_scaleY := newScale,
                                stage_x := px - mousePointTo_x * newScale,
                                stage_y := py - mousePointTo_y * newScale\<rparr>))))"

text \<open>
  A wheel event as the handler sees it: the pointer position registered on the stage
  and the event's \<open>deltaY\<close>. \<open>wheelEvents\<close> runs the handler over a sequence of events.
\<close>

type_synonym WheelEvent = "(real \<times> real) option \<times> real"

fun wheelEvents :: "Stage option \<Rightarrow> WheelEvent list \<Rightarrow> Stage option" where
  "wheelEvents stageRef [] = stageRef"
| "wheelEvents stageRef ((pointer, deltaY) # evs) =
     wheelEvents (handleWheel stageRef pointer deltaY) evs"

text \<open>
  The box record that the Konva \<open>Transformer\<close> hands to \<open>boundBoxFunc\<close>, and the
  callback itself.
\<close>

record KonvaBox =
  box_x :: real
  box_y :: real
  box_width :: real
  box_height :: real
  box_rotation :: real

definition boundBoxFunc :: "KonvaBox \<Rightarrow> KonvaBox \<Rightarrow> KonvaBox" where
  "boundBoxFunc oldBox newBox =
     (if box_width newBox < 5 \<or> box_height newBox < 5 then oldBox else newBox)"

section \<open>The viewport mapping and the transformer\<close>

text \<open>
  The inverse mapping of the viewport, in the words of the specification:
  \<open>image = (screen - offset) / scale\<close>, component-wise. The offset is the position of
  the stage and the scale is its scale.
\<close>

definition inverse_transform :: "Stage \<Rightarrow> real \<times> real \<Rightarrow> real \<times> real" where
  "inverse_transform v p =
     ((fst p - stage_x v) / stage_scaleX v, (snd p - stage_y v) / stage_scaleY v)"

text \<open>
  Modelled from the spec: the Konva library, which draws the shapes, moves a dragged
  node and runs the \<open>Transformer\<close> that calls \<open>boundBoxFunc\<close>, is a dependency and its code
  is not among the sources. \<open>screenBox v k n\<close> is the box of a node as the transformer
  sees it: the specification anchors the handles to the screen-space representation of
  the shape (section 4.3) and maps image to screen by \<open>screen = image * scale + offset\<close>
  (section 3). The shape is the \<open>Rect\<close> as the source draws it, with a stroke of width
  \<open>k\<close> (the \<open>Transformer\<close> element sets no \<open>ignoreStroke\<close>): the box reaches half a stroke
  width beyond the rectangle on every side, and the stroke is scaled like the
  rectangle. Rotation is not part of the system.
\<close>

definition screenBox :: "Stage \<Rightarrow> real \<Rightarrow> Node \<Rightarrow> KonvaBox" where
  "screenBox v k n =
     \<lparr>box_x = (node_x n - k / 2 * node_scaleX n) * stage_scaleX v + stage_x v,
      box_y = (node_y n - k / 2 * node_scaleY n) * stage_scaleY v + stage_y v,
      box_width = (node_width n + k) * node_scaleX n * stage_scaleX v,
      box_height = (node_height n + k) * node_scaleY n * stage_scaleY v,
      box_rotation = 0\<rparr>"

text \<open>
  Modelled from the spec: how the transformer (Konva, not among the sources) fits the
  node into the box \<open>newBox\<close> when its box was \<open>oldBox\<close>. The map of the screen that
  carries \<open>oldBox\<close> onto \<open>newBox\<close> (a scaling by \<open>fx\<close> and \<open>fy\<close> along the axes and a shift)
  is applied to the node: the screen position \<open>(ax, ay)\<close> of its origin moves with the
  map and is read back by the inverse transform of the viewport (section 4.4), and the
  scaling goes into the local scale factors, so that the gesture ends with screen
  dimensions \<open>(w * sx, h * sy)\<close>, the width and height staying as they are.
\<close>

definition fitNode :: "Stage \<Rightarrow> KonvaBox \<Rightarrow> KonvaBox \<Rightarrow> Node \<Rightarrow> Node" where
  "fitNode v oldBox newBox n =
     (let fx = box_width newBox / box_width oldBox;
          fy = box_height newBox / box_height oldBox;
          ax = node_x n * stage_scaleX v + stage_x v;
          ay = node_y n * stage_scaleY v + stage_y v;
          ax' = box_x newBox + (ax - box_x oldBox) * fx;
          ay' = box_y newBox + (ay - box_y oldBox) * fy
      in n\<lparr>node_x := (ax' - stage_x v) / stage_scaleX v,
           node_y := (ay' - stage_y v) / stage_scaleY v,
           node_scaleX := node_scaleX n * fx,
           node_scaleY := node_scaleY n * fy\<rparr>)"

text \<open>
  Modelled from the spec: one step of a resize through a handle of the transformer
  (Konva, not among the sources), made at every move of the pointer. The transformer
  proposes \<open>newBox\<close>, asks \<open>boundBoxFunc\<close> with the node's current box as \<open>oldBox\<close>, and fits
  the node into the answer; by section 4.4 the minimum is evaluated in screen space,
  before the inverse transform. A gesture is the sequence of its proposals.
\<close>

definition transformStep :: "Stage \<Rightarrow> real \<Rightarrow> KonvaBox \<Rightarrow> Node \<Rightarrow> Node" where
  "transformStep v k newBox n =
     (let oldBox = screenBox v k n in fitNode v oldBox (boundBoxFunc oldBox newBox) n)"

fun transformGesture :: "Stage \<Rightarrow> real \<Rightarrow> KonvaBox list \<Rightarrow> Node \<Rightarrow> Node" where
  "transformGesture v k [] n = n"
| "transformGesture v k (newBox # rest) n = transformGesture v k rest (transformStep v k newBox n)"

text \<open>
  Modelled from the spec: a drag of the shape body (done by Konva, not among the
  sources) that leaves the node at the local position \<open>(nx, ny)\<close>; by section 4.4 a drag
  is a move without resize, the scale factors staying at 1.
\<close>

definition dragTo :: "real \<Rightarrow> real \<Rightarrow> Node \<Rightarrow> Node" where
  "dragTo nx ny n = n\<lparr>node_x := nx, node_y := ny\<rparr>"

text \<open>
  The last proposal of a gesture that passes the test of \<open>boundBoxFunc\<close>, if there is
  one, and the node fitted to a proposal \<open>p\<close> that passed: a closed form of what the
  steps compute, \<open>w\<close> and \<open>h\<close> being the width and height of the node.
\<close>

fun lastAccepted :: "KonvaBox list \<Rightarrow> KonvaBox option" where
  "lastAccepted [] = None"
| "lastAccepted (p # ps) =
     (case lastAccepted ps of
        Some q \<Rightarrow> Some q
      | None \<Rightarrow> if box_width p < 5 \<or> box_height p < 5 then None else Some p)"

definition fittedNode :: "Stage \<Rightarrow> real \<Rightarrow> KonvaBox \<Rightarrow> Node \<Rightarrow> Node" where
  "fittedNode v k p n =
     n\<lparr>node_x := (box_x p + k / 2 * box_width p / (node_width n + k) - stage_x v)
                   / stage_scaleX v,
       node_y := (box_y p + k / 2 * box_height p / (node_height n + k) - stage_y v)
                   / stage_scaleY v,
       node_scaleX := box_width p / (stage_scaleX v * (node_width n + k)),
       node_scaleY := box_height p / (stage_scaleY v * (node_height n + k))\<rparr>"

section \<open>Export\<close>

text \<open>
  The JSON values that \<open>JSON.stringify\<close> writes for the detection list. An object keeps
  its keys in insertion order: the fields of the backend's entry (\<open>label\<close>,
  \<open>confidence\<close>, \<open>box\<close>), then the \<open>id\<close> added by the spread.
\<close>

datatype json =
  JNumber real
| JString string
| JArray "json list"
| JObject "(string \<times> json) list"

definition BoundingBox_json :: "BoundingBox \<Rightarrow> json" where
  "BoundingBox_json b =
     JObject [(''x1'', JNumber (x1 b)), (''y1'', JNumber (y1 b)),
              (''x2'', JNumber (x2 b)), (''y2'', JNumber (y2 b))]"

definition Detection_json :: "Detection \<Rightarrow> json" where
  "Detection_json d =
     JObject [(''label'', JString (label d)),
              (''confidence'', JNumber (confidence d)),
              (''box'', BoundingBox_json (box d)),
              (''id'', JString (det_id d))]"

text \<open>
  \<open>exportData\<close>: the document \<open>JSON.stringify(detections, null, 2)\<close> that becomes the
  download \<open>annotations.json\<close>. The layout of the text (indentation by 2) and its
  wrapping into a \<open>data:\<close> URL by \<open>encodeURIComponent\<close> are not modelled.
\<close>

definition exportData :: "AppState \<Rightarrow> json" where
  "exportData st = JArray (map Detection_json (detections st))"

definition json_keys :: "json \<Rightarrow> string list" where
  "json_keys j = (case j of JObject kvs \<Rightarrow> map fst kvs | _ \<Rightarrow> [])"

definition json_field :: "string \<Rightarrow> json \<Rightarrow> json option" where
  "json_field k j = (case j of JObject kvs \<Rightarrow> map_of kvs k | _ \<Rightarrow> None)"

definition json_elements :: "json \<Rightarrow> json list" where
  "json_elements j = (case j of JArray es \<Rightarrow> es | _ \<Rightarrow> [])"

text \<open>
  The export as the specification words it: a JSON array whose elements are objects
  with no key other than \<open>label\<close>, \<open>confidence\<close> and \<open>box\<close>.
\<close>

definition ids_excluded :: "json \<Rightarrow> bool" where
  "ids_excluded j =
     (case j of
        JArray es \<Rightarrow>
          list_all (\<lambda>e. case e of
                          JObject kvs \<Rightarrow>
                            list_all (\<lambda>k. k = ''label'' \<or> k = ''confidence'' \<or> k = ''box'')
                              (map fst kvs)
                        | _ \<Rightarrow> False) es
      | _ \<Rightarrow> False)"

section \<open>Example states\<close>

text \<open>
  Two detections, one above and one below the default threshold \<open>0.25\<close>, in a state
  showing the stored image 1 with the first detection selected.
\<close>

definition ex_a :: Detection where
  "ex_a = \<lparr>label = ''car'', confidence = 0.9,
            box = \<lparr>x1 = 0, y1 = 0, x2 = 10, y2 = 10\<rparr>, det_id = ''a''\<rparr>"

definition ex_b :: Detection where
  "ex_b = \<lparr>label = ''dog'', confidence = 0.2,
            box = \<lparr>x1 = 20, y1 = 20, x2 = 40, y2 = 40\<rparr>, det_id = ''b''\<rparr>"

definition ex_state :: AppState where
  "ex_state =
     \<lparr>file_st = None, imageSrc = Some (ImagesEndpoint 1), detections = [ex_a, ex_b],
      isLoading = False, imageDimensions = (100, 100), history = [],
      currentImageId = Some 1, selectedId = Some ''a'', confidenceThreshold = 0.25,
      enhanceAccuracy = False\<rparr>"

text \<open>
  A backend entry and a run of \<open>generateId\<close> whose \<open>k\<close>-th token consists of \<open>k + 1\<close>
  letters.
\<close>

definition ex_raw :: RawDetection where
  "ex_raw = \<lparr>label = ''cat'', confidence = 0.8,
              box = \<lparr>x1 = 5, y1 = 5, x2 = 25, y2 = 35\<rparr>\<rparr>"

definition ex_gen :: "nat \<Rightarrow> string" where
  "ex_gen k = replicate (Suc k) CHR ''n''"

text \<open>
  Viewports at the identity, at the two bounds of the scale and at one half, and two
  boxes proposed by the transformer: one of the minimal accepted size and one too thin.
\<close>

definition ex_stage1 :: Stage where
  "ex_stage1 = \<lparr>stage_x = 0, stage_y = 0, stage_scaleX = 1, stage_scaleY = 1\<rparr>"

definition ex_stage5 :: Stage where
  "ex_stage5 = \<lparr>stage_x = 0, stage_y = 0, stage_scaleX = 5, stage_scaleY = 5\<rparr>"

definition ex_stage_min :: Stage where
  "ex_stage_min = \<lparr>stage_x = 30, stage_y = 40, stage_scaleX = 0.1, stage_scaleY = 0.1\<rparr>"

definition ex_stage_half :: Stage where
  "ex_stage_half = \<lparr>stage_x = 8, stage_y = 6, stage_scaleX = 0.5, stage_scaleY = 0.5\<rparr>"

definition ex_proposal_small :: KonvaBox where
  "ex_proposal_small =
     \<lparr>box_x = 0, box_y = 0, box_width = 5, box_height = 5, box_rotation = 0\<rparr>"

definition ex_proposal_thin :: KonvaBox where
  "ex_proposal_thin =
     \<lparr>box_x = 2, box_y = 2, box_width = 4, box_height = 30, box_rotation = 0\<rparr>"

definition ex_proposal_eight :: KonvaBox where
  "ex_proposal_eight =
     \<lparr>box_x = - 2, box_y = - 2, box_width = 8, box_height = 8, box_rotation = 0\<rparr>"

definition ex_proposal_two :: KonvaBox where
  "ex_proposal_two =
     \<lparr>box_x = - 2, box_y = - 2, box_width = 2, box_height = 2, box_rotation = 0\<rparr>"

text \<open>
  Two states for the Delete key: one where two entries carry the selected id, and one
  where the selected id is the empty string.
\<close>

definition ex_a2 :: Detection where
  "ex_a2 = \<lparr>label = ''bus'', confidence = 0.7,
             box = \<lparr>x1 = 50, y1 = 50, x2 = 80, y2 = 70\<rparr>, det_id = ''a''\<rparr>"

definition ex_dup_state :: AppState where
  "ex_dup_state = ex_state\<lparr>detections := [ex_a, ex_a2, ex_b]\<rparr>"

definition ex_e :: Detection where
  "ex_e = \<lparr>label = ''van'', confidence = 0.6,
            box = \<lparr>x1 = 1, y1 = 1, x2 = 9, y2 = 9\<rparr>, det_id = []\<rparr>"

definition ex_empty_id_state :: AppState where
  "ex_empty_id_state = ex_state\<lparr>detections := [ex_e, ex_b], selectedId := Some []\<rparr>"

section \<open>The visible view\<close>

lemma visibleDetections_subseq: "subseq (visibleDetections st) (detections st)"
  by (simp add: visibleDetections_def)

lemma visibleDetections_length:
  "length (visibleDetections st) =
     card {i. i < length (detections st) \<and>
              confidenceThreshold st \<le> confidence (detections st ! i)}"
  by (simp add: visibleDetections_def length_filter_conv_card)

text \<open>
  Claim C8. For every detection list and every threshold \<open>t\<close>, the visible view is the
  sublist of the entries whose confidence is at least \<open>t\<close> (the comparison is inclusive),
  in their original relative order; its length is the number of positions of the
  canonical list holding such an entry; and neither computing the view nor moving the
  threshold changes the canonical list.
\<close>

theorem visibleDetections_is_filtered_view:
  "subseq (visibleDetections st) (detections st)
   \<and> set (visibleDetections st) =
       {d. d \<in> set (detections st) \<and> confidenceThreshold st \<le> confidence d}
   \<and> length (visibleDetections st) =
       card {i. i < length (detections st) \<and>
                confidenceThreshold st \<le> confidence (detections st ! i)}
   \<and> visibleDetections (setConfidenceThreshold t st) =
       filter (\<lambda>d. t \<le> confidence d) (detections st)
   \<and> detections (setConfidenceThreshold t st) = detections st"
proof -
  have "set (visibleDetections st) =
          {d. d \<in> set (detections st) \<and> confidenceThreshold st \<le> confidence d}"
    by (auto simp: visibleDetections_def)
  moreover have "visibleDetections (setConfidenceThreshold t st) =
                   filter (\<lambda>d. t \<le> confidence d) (detections st)"
    by (simp add: visibleDetections_def setConfidenceThreshold_def)
  moreover have "detections (setConfidenceThreshold t st) = detections st"
    by (simp add: setConfidenceThreshold_def)
  ultimately show ?thesis
    using visibleDetections_subseq visibleDetections_length by blast
qed

section \<open>Deleting the selected detection\<close>

lemma filter_other_ids:
  "s \<notin> det_id ` set zs \<Longrightarrow> filter (\<lambda>d. det_id d \<noteq> s) zs = zs"
  by (induction zs) auto

text \<open>
  Claim C9, as stated: for every detection list containing the selected id, Delete
  removes exactly that entry and the length decreases by exactly 1. It fails when two
  entries carry the selected id (both are removed: three entries become one), and when
  the selected id is the empty string, which the handler takes for no selection (nothing
  is removed and the selection stays).
\<close>

theorem delete_key_counterexample:
  "selectedId ex_dup_state = Some ''a''
   \<and> ''a'' \<in> det_id ` set (detections ex_dup_state)
   \<and> length (detections ex_dup_state) = 3
   \<and> length (detections (handleKeyDown ''Delete'' ex_dup_state)) = 1
   \<and> selectedId ex_empty_id_state = Some []
   \<and> [] \<in> det_id ` set (detections ex_empty_id_state)
   \<and> handleKeyDown ''Delete'' ex_empty_id_state = ex_empty_id_state"
  by (simp add: handleKeyDown_def truthy_string_def ex_dup_state_def ex_empty_id_state_def
      ex_state_def ex_a_def ex_a2_def ex_b_def ex_e_def)

text \<open>
  Claim C9, amended. Let the selected id be a non-empty string carried by exactly one
  entry of the canonical list. Then Delete or Backspace removes exactly that entry: the
  list loses one element, the entries before and after it stay as they were, in order,
  no other cell of the state changes, and the selection is none. When no id is selected
  (\<open>selectedId\<close> is null or the empty string), the key press changes nothing.
\<close>

theorem handleKeyDown_removes_selected:
  "((key = ''Delete'' \<or> key = ''Backspace'') \<and> selectedId st = Some s \<and> s \<noteq> [] \<and>
      detections st = xs @ d # ys \<and> det_id d = s \<and> s \<notin> det_id ` set (xs @ ys)
    \<longrightarrow> handleKeyDown key st = st\<lparr>detections := xs @ ys, selectedId := None\<rparr>
        \<and> Suc (length (detections (handleKeyDown key st))) = length (detections st))
   \<and> (\<not> truthy_string (selectedId st) \<longrightarrow> handleKeyDown key st = st)"
proof (intro conjI impI)
  assume h: "(key = ''Delete'' \<or> key = ''Backspace'') \<and> selectedId st = Some s \<and> s \<noteq> [] \<and>
      detections st = xs @ d # ys \<and> det_id d = s \<and> s \<notin> det_id ` set (xs @ ys)"
  then have "s \<notin> det_id ` set xs" and "s \<notin> det_id ` set ys"
    by auto
  then have fx: "filter (\<lambda>d. det_id d \<noteq> s) xs = xs"
    and fy: "filter (\<lambda>d. det_id d \<noteq> s) ys = ys"
    by (simp_all add: filter_other_ids)
  from h fx fy show del: "handleKeyDown key st = st\<lparr>detections := xs @ ys, selectedId := None\<rparr>"
    by (simp add: handleKeyDown_def truthy_string_def)
  from h show "Suc (length (detections (handleKeyDown key st))) = length (detections st)"
    by (simp add: del)
next
  assume "\<not> truthy_string (selectedId st)"
  then show "handleKeyDown key st = st"
    by (simp add: handleKeyDown_def)
qed

text \<open>
  The statement on the example state, with \<open>a\<close> selected and with nothing selected.
\<close>

theorem handleKeyDown_removes_selected_witness:
  "selectedId ex_state = Some ''a'' \<and> detections ex_state = [] @ ex_a # [ex_b]
   \<and> det_id ex_a = ''a'' \<and> ''a'' \<notin> det_id ` set ([] @ [ex_b])
   \<and> handleKeyDown ''Delete'' ex_state = ex_state\<lparr>detections := [ex_b], selectedId := None\<rparr>
   \<and> \<not> truthy_string (selectedId (ex_state\<lparr>selectedId := None\<rparr>))
   \<and> handleKeyDown ''Delete'' (ex_state\<lparr>selectedId := None\<rparr>) = ex_state\<lparr>selectedId := None\<rparr>"
  using handleKeyDown_removes_selected [of "''Delete''" ex_state "''a''" "[]" ex_a "[ex_b]"]
    handleKeyDown_removes_selected [of "''Delete''" "ex_state\<lparr>selectedId := None\<rparr>"]
  by (simp add: ex_state_def ex_a_def ex_b_def truthy_string_def)

section \<open>Replacing the store\<close>

text \<open>
  Claim C5, as stated: replacing the store leaves the selection none. It fails: after a
  successful load of a history item the list is the new one, with a fresh id, and the
  previously selected id is still selected.
\<close>

theorem replace_keeps_selection_counterexample:
  "map det_id (detections (loadHistoryItem ex_gen 2 (Inr [ex_raw]) ex_state)) = [''n'']
   \<and> selectedId (loadHistoryItem ex_gen 2 (Inr [ex_raw]) ex_state) = Some ''a''
   \<and> selectedId (loadHistoryItem ex_gen 2 (Inr [ex_raw]) ex_state) \<noteq> None"
  by (simp add: loadHistoryItem_def mapGenerateId_def withId_def ex_gen_def ex_state_def)

text \<open>
  Claim C5, amended. None of the three replacements (loading a history item, choosing a
  file, receiving a detect response) touches the selection: it is afterwards what it
  was before, whether the request succeeded or failed.
\<close>

theorem replace_keeps_selection:
  "selectedId (loadHistoryItem gen i res st) = selectedId st
   \<and> selectedId (handleFileChange files st) = selectedId st
   \<and> selectedId (handleDetect gen dres hist st) = selectedId st"
  by (simp add: loadHistoryItem_def handleFileChange_def handleDetect_def fetchHistory_def Let_def
      split: sum.split option.split list.split)

section \<open>Failing requests\<close>

text \<open>
  The requests whose handlers write to the state only after the awaited call has
  succeeded: a failure of detect, save or delete leaves the image id, the image source
  and the detection list as they were.
\<close>

lemma other_requests_failure_keeps_state:
  "currentImageId (handleDetect gen (Inl e) hist st) = currentImageId st
   \<and> imageSrc (handleDetect gen (Inl e) hist st) = imageSrc st
   \<and> detections (handleDetect gen (Inl e) hist st) = detections st
   \<and> saveAnnotations (Inl e) hist st = st
   \<and> deleteHistoryItem i (Inl e) st = st"
  by (simp add: handleDetect_def saveAnnotations_def deleteHistoryItem_def split: option.split)

text \<open>
  Claim C6. A failing request must leave the current image id, the image source and the
  detection list as they were. \<open>loadHistoryItem\<close> does not: with image 1 on display, a
  failed load of item 2 leaves the image id and the image source at item 2 and the
  detection list of image 1 in place.
\<close>

theorem loadHistoryItem_failure_mutates:
  "currentImageId ex_state = Some 1 \<and> imageSrc ex_state = Some (ImagesEndpoint 1)
   \<and> currentImageId (loadHistoryItem gen 2 (Inl RequestFailed) ex_state) = Some 2
   \<and> imageSrc (loadHistoryItem gen 2 (Inl RequestFailed) ex_state) = Some (ImagesEndpoint 2)
   \<and> detections (loadHistoryItem gen 2 (Inl RequestFailed) ex_state) = detections ex_state"
  by (simp add: loadHistoryItem_def ex_state_def)

section \<open>The exported document\<close>

text \<open>
  Claim C7, as stated: the elements of the exported array contain only \<open>label\<close>,
  \<open>confidence\<close> and \<open>box\<close>. It fails on the example state.
\<close>

theorem exportData_ids_excluded_counterexample:
  "\<not> ids_excluded (exportData ex_state)"
  by (simp add: ids_excluded_def exportData_def ex_state_def Detection_json_def)

text \<open>
  Claim C7, amended. For every detection list the exported document is an array with
  one object per entry of the canonical list, in order, whose keys are \<open>label\<close>,
  \<open>confidence\<close>, \<open>box\<close> and \<open>id\<close>: the client-side id is part of every element.
\<close>

theorem exportData_keeps_ids:
  "exportData st = JArray (json_elements (exportData st))
   \<and> length (json_elements (exportData st)) = length (detections st)
   \<and> map json_keys (json_elements (exportData st)) =
       map (\<lambda>d. [''label'', ''confidence'', ''box'', ''id'']) (detections st)
   \<and> map (json_field ''id'') (json_elements (exportData st)) =
       map (\<lambda>d. Some (JString (det_id d))) (detections st)"
  by (simp add: exportData_def json_elements_def json_keys_def json_field_def Detection_json_def)

section \<open>Committing a drag or a resize\<close>

text \<open>
  What a commit stores is computed from the visible list: the canonical list afterwards
  has as many entries as were visible, and none of them is below the threshold.
\<close>

lemma commit_stores_visible_only:
  "length (detections (App_onDragEnd node i st)) = length (visibleDetections st)
   \<and> length (detections (App_onTransformEnd node i st)) = length (visibleDetections st)
   \<and> list_all (\<lambda>d. confidenceThreshold st \<le> confidence d)
         (detections (App_onDragEnd node i st))
   \<and> list_all (\<lambda>d. confidenceThreshold st \<le> confidence d)
         (detections (App_onTransformEnd node i st))"
  by (auto simp: App_onDragEnd_def App_onTransformEnd_def handleDragEnd_def
      handleTransformEnd_def visibleDetections_def Let_def list_all_iff)

text \<open>
  Claim C1. Committing an edit must replace the box of the matching entry and keep every
  other entry of the canonical list, also those below the threshold. With the entries
  \<open>a\<close> (confidence 0.9) and \<open>b\<close> (confidence 0.2) and the threshold 0.25, committing a
  drag or a resize of \<open>a\<close> stores a list that holds the edited \<open>a\<close> alone: \<open>b\<close> is gone
  from the canonical list.
\<close>

theorem commit_drops_hidden_entries:
  "detections ex_state = [ex_a, ex_b] \<and> confidenceThreshold ex_state = 0.25
   \<and> detections (App_onDragEnd (dragTo 3 4 (rectNode ex_a)) ''a'' ex_state) =
       [ex_a\<lparr>box := \<lparr>x1 = 3, y1 = 4, x2 = 13, y2 = 14\<rparr>\<rparr>]
   \<and> detections (App_onTransformEnd (dragTo 3 4 (rectNode ex_a)) ''a'' ex_state) =
       [ex_a\<lparr>box := \<lparr>x1 = 3, y1 = 4, x2 = 13, y2 = 14\<rparr>\<rparr>]"
  by (simp add: App_onDragEnd_def App_onTransformEnd_def handleDragEnd_def handleTransformEnd_def
      visibleDetections_def dragTo_def rectNode_def ex_state_def ex_a_def ex_b_def)

section \<open>Zooming with the wheel\<close>

lemma handleWheel_Some:
  "handleWheel (Some s) (Some (px, py)) dy =
     (let c = (if dy > 0 then stage_scaleX s / 1.1 else stage_scaleX s * 1.1);
          n = (if (if c < 0.1 then 0.1 else c) > 5 then 5 else (if c < 0.1 then 0.1 else c))
      in Some (s\<lparr>stage_scaleX := n, stage_scaleY := n,
                 stage_x := px - (px - stage_x s) / stage_scaleX s * n,
                 stage_y := py - (py - stage_y s) / stage_scaleX s * n\<rparr>))"
  by (simp add: handleWheel_def Let_def)

lemma handleWheel_scale_range:
  assumes "handleWheel (Some s) (Some p) dy = Some s'"
  shows "0.1 \<le> stage_scaleX s' \<and> stage_scaleX s' \<le> 5 \<and> stage_scaleY s' = stage_scaleX s'"
proof -
  obtain px py where p: "p = (px, py)" by (cases p)
  from assms show ?thesis
    unfolding p handleWheel_Some by (auto simp: Let_def split: if_splits)
qed

text \<open>
  Claim C2. For every viewport whose scale (the same on both axes) lies in \<open>[0.1, 5]\<close>,
  every pointer position \<open>p\<close> and every wheel event, the handler yields a new viewport
  under which \<open>p\<close> maps to the same image-space point as under the old one, also when
  the new scale was clamped. Numbers are exact reals here, so the two points are equal,
  not just close.
\<close>

theorem handleWheel_pointer_stationary:
  assumes "stage_scaleY s = stage_scaleX s"
    and "0.1 \<le> stage_scaleX s" and "stage_scaleX s \<le> 5"
  shows "\<exists>s'. handleWheel (Some s) (Some p) dy = Some s'
           \<and> inverse_transform s' p = inverse_transform s p"
proof -
  obtain px py where p: "p = (px, py)" by (cases p)
  obtain s' where s': "handleWheel (Some s) (Some p) dy = Some s'"
    unfolding p handleWheel_Some by (simp add: Let_def)
  from handleWheel_scale_range [OF s'] have pos: "stage_scaleX s' \<noteq> 0"
    and eq: "stage_scaleY s' = stage_scaleX s'" by auto
  from s' have x: "stage_x s' = px - (px - stage_x s) / stage_scaleX s * stage_scaleX s'"
    and y: "stage_y s' = py - (py - stage_y s) / stage_scaleX s * stage_scaleX s'"
    unfolding p handleWheel_Some by (auto simp: Let_def)
  have "inverse_transform s' p = inverse_transform s p"
    using pos by (simp add: inverse_transform_def p x y eq assms(1))
  with s' show ?thesis by blast
qed

text \<open>
  The statement at scale 5, where a zoom-in event is clamped: the pointer \<open>(100, 50)\<close>
  maps to the image point \<open>(20, 10)\<close> before and after.
\<close>

theorem handleWheel_pointer_stationary_witness:
  "stage_scaleY \<lparr>stage_x = 0, stage_y = 0, stage_scaleX = 5, stage_scaleY = 5\<rparr> =
     stage_scaleX \<lparr>stage_x = 0, stage_y = 0, stage_scaleX = 5, stage_scaleY = 5\<rparr>
   \<and> inverse_transform
        (the (handleWheel (Some \<lparr>stage_x = 0, stage_y = 0, stage_scaleX = 5, stage_scaleY = 5\<rparr>)
               (Some (100, 50)) (-3))) (100, 50) = (20, 10)"
  using handleWheel_pointer_stationary
    [of "\<lparr>stage_x = 0, stage_y = 0, stage_scaleX = 5, stage_scaleY = 5\<rparr>" "(100, 50)" "-3"]
  by (auto simp: inverse_transform_def)

lemma handleWheel_keeps_range:
  assumes "0.1 \<le> stage_scaleX s \<and> stage_scaleX s \<le> 5"
  shows "\<exists>s'. handleWheel (Some s) pointer dy = Some s'
           \<and> 0.1 \<le> stage_scaleX s' \<and> stage_scaleX s' \<le> 5"
proof (cases pointer)
  case None
  with assms show ?thesis by (simp add: handleWheel_def)
next
  case (Some p)
  obtain px py where p: "p = (px, py)" by (cases p)
  obtain s' where s': "handleWheel (Some s) (Some p) dy = Some s'"
    unfolding p handleWheel_Some by (simp add: Let_def)
  with handleWheel_scale_range [OF s'] Some show ?thesis by simp
qed

lemma wheelEvents_keeps_range:
  "0.1 \<le> stage_scaleX s \<and> stage_scaleX s \<le> 5 \<Longrightarrow>
     \<exists>s'. wheelEvents (Some s) evs = Some s' \<and> 0.1 \<le> stage_scaleX s' \<and> stage_scaleX s' \<le> 5"
proof (induction evs arbitrary: s)
  case Nil
  then show ?case by simp
next
  case (Cons ev evs)
  obtain pointer dy where ev: "ev = (pointer, dy)" by (cases ev)
  from handleWheel_keeps_range [OF Cons.prems] obtain s1
    where s1: "handleWheel (Some s) pointer dy = Some s1"
      and r1: "0.1 \<le> stage_scaleX s1 \<and> stage_scaleX s1 \<le> 5" by blast
  from Cons.IH [OF r1] show ?case by (simp add: ev s1)
qed

text \<open>
  Claim C3. Starting from any scale in \<open>[0.1, 5]\<close>, every finite sequence of wheel events,
  in any directions and with or without a pointer position, ends with a stage whose
  scale is in \<open>[0.1, 5]\<close>. A single event is never refused: the handler yields a new
  stage whose scale is the bound \<open>0.1\<close> when the candidate is below it, the bound \<open>5\<close> when
  the candidate is above it, and the candidate itself otherwise.
\<close>

theorem wheel_scale_stays_in_range:
  assumes "0.1 \<le> stage_scaleX s" and "stage_scaleX s \<le> 5"
  shows "(\<exists>s'. wheelEvents (Some s) evs = Some s'
            \<and> 0.1 \<le> stage_scaleX s' \<and> stage_scaleX s' \<le> 5)
         \<and> (\<exists>s'. handleWheel (Some s) (Some p) dy = Some s'
              \<and> ((if dy > 0 then stage_scaleX s / 1.1 else stage_scaleX s * 1.1) < 0.1
                    \<longrightarrow> stage_scaleX s' = 0.1)
              \<and> ((if dy > 0 then stage_scaleX s / 1.1 else stage_scaleX s * 1.1) > 5
                    \<longrightarrow> stage_scaleX s' = 5)
              \<and> (0.1 \<le> (if dy > 0 then stage_scaleX s / 1.1 else stage_scaleX s * 1.1)
                  \<and> (if dy > 0 then stage_scaleX s / 1.1 else stage_scaleX s * 1.1) \<le> 5
                    \<longrightarrow> stage_scaleX s' =
                          (if dy > 0 then stage_scaleX s / 1.1 else stage_scaleX s * 1.1)))"
proof -
  obtain px py where p: "p = (px, py)" by (cases p)
  have "\<exists>s'. wheelEvents (Some s) evs = Some s' \<and> 0.1 \<le> stage_scaleX s' \<and> stage_scaleX s' \<le> 5"
    using assms by (intro wheelEvents_keeps_range) simp
  moreover have "\<exists>s'. handleWheel (Some s) (Some p) dy = Some s'
              \<and> ((if dy > 0 then stage_scaleX s / 1.1 else stage_scaleX s * 1.1) < 0.1
                    \<longrightarrow> stage_scaleX s' = 0.1)
              \<and> ((if dy > 0 then stage_scaleX s / 1.1 else stage_scaleX s * 1.1) > 5
                    \<longrightarrow> stage_scaleX s' = 5)
              \<and> (0.1 \<le> (if dy > 0 then stage_scaleX s / 1.1 else stage_scaleX s * 1.1)
                  \<and> (if dy > 0 then stage_scaleX s / 1.1 else stage_scaleX s * 1.1) \<le> 5
                    \<longrightarrow> stage_scaleX s' =
                          (if dy > 0 then stage_scaleX s / 1.1 else stage_scaleX s * 1.1))"
    unfolding p handleWheel_Some by (simp add: Let_def)
  ultimately show ?thesis by blast
qed

text \<open>
  The statement on a sequence of three events from scale 5, and on single events whose
  candidate is above the range, below it and inside it.
\<close>

theorem wheel_scale_stays_in_range_witness:
  "0.1 \<le> stage_scaleX ex_stage5 \<and> stage_scaleX ex_stage5 \<le> 5
   \<and> (\<exists>s'. wheelEvents (Some ex_stage5) [(Some (1, 1), -1), (None, 3), (Some (2, 2), 1)] = Some s'
          \<and> 0.1 \<le> stage_scaleX s' \<and> stage_scaleX s' \<le> 5)
   \<and> stage_scaleX ex_stage5 * 1.1 > 5
   \<and> (\<exists>s'. handleWheel (Some ex_stage5) (Some (1, 1)) (-1) = Some s' \<and> stage_scaleX s' = 5)
   \<and> stage_scaleX ex_stage_min / 1.1 < 0.1
   \<and> (\<exists>s'. handleWheel (Some ex_stage_min) (Some (1, 1)) 1 = Some s' \<and> stage_scaleX s' = 0.1)
   \<and> (\<exists>s'. handleWheel (Some ex_stage1) (Some (1, 1)) 1 = Some s' \<and> stage_scaleX s' = 1 / 1.1)"
  using wheel_scale_stays_in_range
      [of ex_stage5 "[(Some (1, 1), -1), (None, 3), (Some (2, 2), 1)]" "(1, 1)" "-1"]
    wheel_scale_stays_in_range [of ex_stage_min "[]" "(1, 1)" 1]
    wheel_scale_stays_in_range [of ex_stage1 "[]" "(1, 1)" 1]
  by (simp add: ex_stage5_def ex_stage_min_def ex_stage1_def)

text \<open>
  Claim C10, as stated: a wheel event with \<open>deltaY = 0\<close> is never a no-op on the
  viewport. It fails at the upper bound of the scale: the candidate \<open>5.5\<close> is clamped back
  to \<open>5\<close> and the position is recomputed to what it was.
\<close>

theorem zero_delta_noop_counterexample:
  "handleWheel (Some ex_stage5) (Some (100, 100)) 0 = Some ex_stage5"
  by (simp add: handleWheel_def ex_stage5_def)

lemma anchor_fixed: "c \<noteq> 0 \<Longrightarrow> (a::real) - (a - b) / c * c = b"
  by simp

lemma handleWheel_fields:
  assumes "handleWheel (Some s) (Some (px, py)) dy = Some s'"
  shows "stage_x s' = px - (px - stage_x s) / stage_scaleX s * stage_scaleX s'"
    and "stage_y s' = py - (py - stage_y s) / stage_scaleX s * stage_scaleX s'"
    and "stage_scaleY s' = stage_scaleX s'"
  using assms unfolding handleWheel_Some by (auto simp: Let_def)

lemma nonpositive_delta_same:
  "dy \<le> 0 \<Longrightarrow> handleWheel (Some s) (Some p) dy = handleWheel (Some s) (Some p) 0"
  by (cases p) (simp add: handleWheel_def)

text \<open>
  Claim C10, amended. A wheel event with \<open>deltaY = 0\<close> (and a pointer position) is a
  zoom-in step, the same as an event with a negative \<open>deltaY\<close>: the new scale is the old
  one multiplied by 1.1 and clamped to \<open>[0.1, 5]\<close>. From a scale in \<open>[0.1, 5)\<close> the scale
  grows strictly, so the viewport changes. At scale 5 the clamp returns the scale 5 and
  the position is recomputed to the value it had: in the exact arithmetic of this
  theory the viewport is then the same as before; in the double-precision arithmetic of
  the program the scale is exactly 5 and the position agrees with the old one within
  floating-point tolerance (and exactly where the division and multiplication by 5 are
  exact, as for the position \<open>(0, 0)\<close> and the pointer \<open>(100, 100)\<close>).
\<close>

theorem zero_delta_is_zoom_in:
  "\<exists>s'. handleWheel (Some s) (Some p) 0 = Some s'
      \<and> (dy \<le> 0 \<longrightarrow> handleWheel (Some s) (Some p) dy = Some s')
      \<and> stage_scaleX s' = min 5 (max 0.1 (stage_scaleX s * 1.1))
      \<and> stage_scaleY s' = stage_scaleX s'
      \<and> (0.1 \<le> stage_scaleX s \<and> stage_scaleX s < 5 \<longrightarrow> stage_scaleX s < stage_scaleX s')
      \<and> (stage_scaleX s = 5 \<and> stage_scaleY s = 5 \<longrightarrow> s' = s)"
proof -
  obtain px py where p: "p = (px, py)" by (cases p)
  obtain s' where s': "handleWheel (Some s) (Some p) 0 = Some s'"
    unfolding p handleWheel_Some by (simp add: Let_def)
  have "dy \<le> 0 \<longrightarrow> handleWheel (Some s) (Some p) dy = Some s'"
    using nonpositive_delta_same [of dy s p] s' by simp
  moreover from s' have sx: "stage_scaleX s' = min 5 (max 0.1 (stage_scaleX s * 1.1))"
    and "stage_scaleY s' = stage_scaleX s'"
    unfolding p handleWheel_Some by (auto simp: Let_def min_def max_def)
  moreover have "0.1 \<le> stage_scaleX s \<and> stage_scaleX s < 5 \<longrightarrow> stage_scaleX s < stage_scaleX s'"
    unfolding sx by (simp add: min_def max_def)
  moreover have "stage_scaleX s = 5 \<and> stage_scaleY s = 5 \<longrightarrow> s' = s"
  proof
    assume a: "stage_scaleX s = 5 \<and> stage_scaleY s = 5"
    with sx have n: "stage_scaleX s' = 5" by simp
    note f = handleWheel_fields [OF s' [unfolded p]]
    have "stage_x s' = stage_x s"
      unfolding f(1) n using a anchor_fixed [of 5 px "stage_x s"] by simp
    moreover have "stage_y s' = stage_y s"
      unfolding f(2) n using a anchor_fixed [of 5 py "stage_y s"] by simp
    moreover have "stage_scaleY s' = stage_scaleY s"
      using f(3) n a by simp
    ultimately show "s' = s"
      using n a by (intro Stage.equality) simp_all
  qed
  ultimately show ?thesis using s' by blast
qed

text \<open>The statement at scale 1, where the scale grows to 1.1, and at scale 5.\<close>

theorem zero_delta_is_zoom_in_witness:
  "(\<exists>s'. handleWheel (Some ex_stage1) (Some (100, 100)) 0 = Some s'
      \<and> handleWheel (Some ex_stage1) (Some (100, 100)) (-2) = Some s'
      \<and> stage_scaleX s' = 1.1 \<and> stage_scaleX ex_stage1 < stage_scaleX s')
   \<and> stage_scaleX ex_stage5 = 5 \<and> stage_scaleY ex_stage5 = 5
   \<and> handleWheel (Some ex_stage5) (Some (100, 100)) 0 = Some ex_stage5"
  using zero_delta_is_zoom_in [of ex_stage1 "(100, 100)" "-2"]
    zero_delta_is_zoom_in [of ex_stage5 "(100, 100)" 0]
  by (auto simp: ex_stage1_def ex_stage5_def)

section \<open>The minimum size of a box\<close>

text \<open>
  One step of the transformer on a node with positive width, height and scale factors:
  a proposal that fails the test of \<open>boundBoxFunc\<close> leaves the node as it is, and one that
  passes leaves the node fitted to it.
\<close>

lemma scale_factor:
  "nsx \<noteq> 0 \<Longrightarrow> s \<noteq> 0 \<Longrightarrow> t \<noteq> 0 \<Longrightarrow>
     nsx * (pw / (t * nsx * s)) = pw / (s * t)" for nsx s t pw :: real
  by (simp add: field_simps)

lemma origin_offset:
  "nx * s + ox - ((nx - k / 2 * nsx) * s + ox) = k / 2 * nsx * s" for nx s ox k nsx :: real
  by (simp add: algebra_simps)

lemma origin_shift:
  "nsx \<noteq> 0 \<Longrightarrow> s \<noteq> 0 \<Longrightarrow> t \<noteq> 0 \<Longrightarrow>
     k / 2 * nsx * s * (pw / (t * nsx * s)) = k / 2 * pw / t" for nsx s t k pw :: real
  by (simp add: field_simps)

lemma transformStep_accepted:
  assumes "0 < node_width n" and "0 < node_height n"
    and "0 < node_scaleX n" and "0 < node_scaleY n"
    and "0 \<le> k" and "0 < stage_scaleX v" and "0 < stage_scaleY v"
    and "\<not> (box_width p < 5 \<or> box_height p < 5)"
  shows "transformStep v k p n = fittedNode v k p n"
proof -
  have nz: "node_scaleX n \<noteq> 0" "node_scaleY n \<noteq> 0" "stage_scaleX v \<noteq> 0" "stage_scaleY v \<noteq> 0"
    "node_width n + k \<noteq> 0" "node_height n + k \<noteq> 0"
    using assms by auto
  have sx: "node_scaleX n * (box_width p / ((node_width n + k) * node_scaleX n * stage_scaleX v))
              = box_width p / (stage_scaleX v * (node_width n + k))"
    by (rule scale_factor) (use nz in auto)
  have sy: "node_scaleY n * (box_height p / ((node_height n + k) * node_scaleY n * stage_scaleY v))
              = box_height p / (stage_scaleY v * (node_height n + k))"
    by (rule scale_factor) (use nz in auto)
  have px: "(node_x n * stage_scaleX v + stage_x v
               - ((node_x n - k / 2 * node_scaleX n) * stage_scaleX v + stage_x v))
             * (box_width p / ((node_width n + k) * node_scaleX n * stage_scaleX v))
            = k / 2 * box_width p / (node_width n + k)"
    unfolding origin_offset by (rule origin_shift) (use nz in auto)
  have py: "(node_y n * stage_scaleY v + stage_y v
               - ((node_y n - k / 2 * node_scaleY n) * stage_scaleY v + stage_y v))
             * (box_height p / ((node_height n + k) * node_scaleY n * stage_scaleY v))
            = k / 2 * box_height p / (node_height n + k)"
    unfolding origin_offset by (rule origin_shift) (use nz in auto)
  have "transformStep v k p n = fitNode v (screenBox v k n) p n"
    using assms(8) by (simp add: transformStep_def boundBoxFunc_def Let_def)
  also have "\<dots> = fittedNode v k p n"
    unfolding fitNode_def fittedNode_def Let_def screenBox_def
    by (simp only: KonvaBox.simps sx sy px py)
  finally show ?thesis .
qed

lemma transformStep_rejected:
  assumes "0 < node_width n" and "0 < node_height n"
    and "0 < node_scaleX n" and "0 < node_scaleY n"
    and "0 \<le> k" and "0 < stage_scaleX v" and "0 < stage_scaleY v"
    and "box_width p < 5 \<or> box_height p < 5"
  shows "transformStep v k p n = n"
proof -
  have w: "box_width (screenBox v k n) \<noteq> 0" and h: "box_height (screenBox v k n) \<noteq> 0"
    using assms by (auto simp: screenBox_def)
  have s: "stage_scaleX v \<noteq> 0" "stage_scaleY v \<noteq> 0"
    using assms by auto
  have "transformStep v k p n = fitNode v (screenBox v k n) (screenBox v k n) n"
    using assms(8) by (simp add: transformStep_def boundBoxFunc_def Let_def)
  also have "\<dots> = n"
    using w h s by (simp add: fitNode_def Let_def)
  finally show ?thesis .
qed

text \<open>
  A whole gesture leaves the node fitted to the last proposal that passed, or as it was
  when none passed.
\<close>

lemma fittedNode_again: "fittedNode v k p (fittedNode v k q n) = fittedNode v k p n"
  by (simp add: fittedNode_def)

lemma fittedNode_positive:
  assumes "0 < node_width n" and "0 < node_height n" and "0 \<le> k"
    and "0 < stage_scaleX v" and "0 < stage_scaleY v"
    and "\<not> (box_width p < 5 \<or> box_height p < 5)"
  shows "0 < node_width (fittedNode v k p n)" and "0 < node_height (fittedNode v k p n)"
    and "0 < node_scaleX (fittedNode v k p n)" and "0 < node_scaleY (fittedNode v k p n)"
  using assms by (simp_all add: fittedNode_def)

lemma lastAccepted_passes:
  "lastAccepted ps = Some p \<Longrightarrow> \<not> (box_width p < 5 \<or> box_height p < 5)"
  by (induction ps) (auto split: option.splits if_splits)

lemma lastAccepted_snoc_rejected:
  "box_width q < 5 \<or> box_height q < 5 \<Longrightarrow> lastAccepted (ps @ [q]) = lastAccepted ps"
  by (induction ps) (auto split: option.splits)

lemma transformGesture_closed_form:
  assumes "0 \<le> k" and "0 < stage_scaleX v" and "0 < stage_scaleY v"
  shows "0 < node_width n \<Longrightarrow> 0 < node_height n \<Longrightarrow> 0 < node_scaleX n \<Longrightarrow> 0 < node_scaleY n \<Longrightarrow>
           transformGesture v k ps n =
             (case lastAccepted ps of None \<Rightarrow> n | Some p \<Rightarrow> fittedNode v k p n)"
proof (induction ps arbitrary: n)
  case Nil
  show ?case by simp
next
  case (Cons p ps)
  show ?case
  proof (cases "box_width p < 5 \<or> box_height p < 5")
    case True
    have "transformStep v k p n = n"
      by (rule transformStep_rejected [OF Cons.prems assms True])
    with Cons.IH [OF Cons.prems] True show ?thesis
      by (simp split: option.split)
  next
    case False
    have step: "transformStep v k p n = fittedNode v k p n"
      by (rule transformStep_accepted [OF Cons.prems assms False])
    note pos = fittedNode_positive [OF Cons.prems(1,2) assms False]
    from Cons.IH [OF pos] step False show ?thesis
      by (simp add: fittedNode_again split: option.split)
  qed
qed

lemma rectNode_positive:
  assumes "5 \<le> x2 (box d) - x1 (box d)" and "5 \<le> y2 (box d) - y1 (box d)"
  shows "0 < node_width (rectNode d)" and "0 < node_height (rectNode d)"
    and "0 < node_scaleX (rectNode d)" and "0 < node_scaleY (rectNode d)"
  using assms by (simp_all add: rectNode_def)

lemma strokeWidth_nonneg: "0 \<le> strokeWidth sel d"
  by (simp add: strokeWidth_def)

lemma handleTransformEnd_single:
  "snd (handleTransformEnd n (det_id d) [d]) =
     [d\<lparr>box := \<lparr>x1 = node_x n, y1 = node_y n,
                 x2 = node_x n + node_width n * node_scaleX n,
                 y2 = node_y n + node_height n * node_scaleY n\<rparr>\<rparr>]"
  by (simp add: handleTransformEnd_def Let_def)

lemma handleDragEnd_single:
  "snd (handleDragEnd n (det_id d) [d]) =
     [d\<lparr>box := \<lparr>x1 = node_x n, y1 = node_y n,
                 x2 = node_x n + node_width n * node_scaleX n,
                 y2 = node_y n + node_height n * node_scaleY n\<rparr>\<rparr>]"
  by (simp add: handleDragEnd_def Let_def)

lemma commit_rectNode:
  "snd (handleTransformEnd (rectNode d) (det_id d) [d]) = [d]"
proof -
  have "\<lparr>x1 = x1 (box d), y1 = y1 (box d), x2 = x2 (box d), y2 = y2 (box d)\<rparr> = box d"
    by simp
  then show ?thesis
    unfolding handleTransformEnd_single by (simp add: rectNode_def)
qed

lemma commit_fittedNode:
  "snd (handleTransformEnd (fittedNode v k p (rectNode d)) (det_id d) [d]) =
     [d\<lparr>box :=
         \<lparr>x1 = (box_x p + k / 2 * box_width p / (x2 (box d) - x1 (box d) + k) - stage_x v)
                  / stage_scaleX v,
          y1 = (box_y p + k / 2 * box_height p / (y2 (box d) - y1 (box d) + k) - stage_y v)
                  / stage_scaleY v,
          x2 = (box_x p + k / 2 * box_width p / (x2 (box d) - x1 (box d) + k) - stage_x v)
                  / stage_scaleX v
               + (x2 (box d) - x1 (box d))
                   * (box_width p / (stage_scaleX v * (x2 (box d) - x1 (box d) + k))),
          y2 = (box_y p + k / 2 * box_height p / (y2 (box d) - y1 (box d) + k) - stage_y v)
                  / stage_scaleY v
               + (y2 (box d) - y1 (box d))
                   * (box_height p / (stage_scaleY v * (y2 (box d) - y1 (box d) + k)))\<rparr>\<rparr>]"
  unfolding handleTransformEnd_single by (simp add: fittedNode_def rectNode_def)

lemma drag_commit:
  "snd (handleDragEnd (dragTo nx ny (rectNode d)) (det_id d) [d]) =
     [d\<lparr>box := \<lparr>x1 = nx, y1 = ny, x2 = nx + (x2 (box d) - x1 (box d)),
                 y2 = ny + (y2 (box d) - y1 (box d))\<rparr>\<rparr>]"
  unfolding handleDragEnd_single by (simp add: dragTo_def rectNode_def)

lemma extent_positive:
  "0 < w \<Longrightarrow> 0 \<le> k \<Longrightarrow> 0 < s \<Longrightarrow> 5 \<le> pw \<Longrightarrow> 0 < w * (pw / (s * (w + k)))"
  for w k s pw :: real
  by simp


lemma extent_bound:
  "0 < w \<Longrightarrow> 0 \<le> k \<Longrightarrow> 0 < s \<Longrightarrow> 5 \<le> pw \<Longrightarrow>
     5 * w / (s * (w + k)) \<le> w * (pw / (s * (w + k)))"
  for w k s pw :: real
proof -
  assume a: "0 < w" "0 \<le> k" "0 < s" "5 \<le> pw"
  then have "0 < s * (w + k)" by simp
  moreover from a have "5 * w \<le> w * pw" by simp
  ultimately have "5 * w / (s * (w + k)) \<le> w * pw / (s * (w + k))"
    by (simp add: divide_right_mono)
  then show ?thesis by simp
qed

text \<open>
  Claim C4, as stated: after every resize of a box with extents of at least 5 the box
  has extents of at least 5 image pixels, and a gesture that would violate the minimum
  leaves the box it had before the gesture began. Both parts fail for the selected
  10 by 10 box \<open>a\<close>. At scale 5 a resize to 5 by 5 screen units passes the test, and the
  committed box measures less than 1 image pixel each way (about 0.71) and is not the
  prior box. At scale 1 a gesture that proposes 8 by 8 and then 2 by 2 screen units ends
  on a proposal below the minimum, and the committed box is the one fitted to the first
  proposal, not the prior box.
\<close>

theorem resize_minimum_counterexample:
  "5 \<le> x2 (box ex_a) - x1 (box ex_a) \<and> 5 \<le> y2 (box ex_a) - y1 (box ex_a)
   \<and> x2 (box (hd (snd (handleTransformEnd
          (transformGesture ex_stage5 (strokeWidth (Some ''a'') ex_a) [ex_proposal_small]
             (rectNode ex_a)) ''a'' [ex_a]))))
       - x1 (box (hd (snd (handleTransformEnd
          (transformGesture ex_stage5 (strokeWidth (Some ''a'') ex_a) [ex_proposal_small]
             (rectNode ex_a)) ''a'' [ex_a])))) < 1
   \<and> box (hd (snd (handleTransformEnd
          (transformGesture ex_stage5 (strokeWidth (Some ''a'') ex_a) [ex_proposal_small]
             (rectNode ex_a)) ''a'' [ex_a]))) \<noteq> box ex_a
   \<and> box_width ex_proposal_two < 5
   \<and> box (hd (snd (handleTransformEnd
          (transformGesture ex_stage1 (strokeWidth (Some ''a'') ex_a)
             [ex_proposal_eight, ex_proposal_two] (rectNode ex_a)) ''a'' [ex_a]))) \<noteq> box ex_a"
  by (simp add: handleTransformEnd_def transformStep_def boundBoxFunc_def screenBox_def
      fitNode_def rectNode_def strokeWidth_def ex_a_def ex_stage5_def ex_stage1_def
      ex_proposal_small_def ex_proposal_eight_def ex_proposal_two_def Let_def)

text \<open>
  Claim C4, amended. Take a box with both extents at least 5 image pixels, drawn with a
  stroke of width \<open>k\<close> (4 when selected, 3 otherwise), and a viewport of scale \<open>s > 0\<close>.
  After a resize gesture with the proposals \<open>ps\<close> and after a drag to \<open>(nx, ny)\<close> the
  committed box has \<open>x1 < x2\<close> and \<open>y1 < y2\<close>. The minimum is tested on each proposed box,
  in screen units and with the stroke included: a proposal narrower or lower than 5 is
  rejected and leaves the box as it was before that proposal (it is not clamped). So
  when no proposal of the gesture passes, the committed box is the box from before the
  gesture; otherwise it is the box fitted to the last proposal \<open>p\<close> that passed, whose
  extents are \<open>w * box_width p / (s * (w + k))\<close> and \<open>h * box_height p / (s * (h + k))\<close> for the
  prior extents \<open>w\<close> and \<open>h\<close>, hence at least \<open>5 * w / (s * (w + k))\<close> and
  \<open>5 * h / (s * (h + k))\<close> image pixels, which can be less than 5. A drag moves the box to
  \<open>(nx, ny)\<close> and keeps both extents. Numbers are exact reals here; the program computes
  in double precision, where the equalities hold within floating-point tolerance.
\<close>

theorem gesture_commit_box:
  assumes "5 \<le> x2 (box d) - x1 (box d)" and "5 \<le> y2 (box d) - y1 (box d)"
    and "stage_scaleX v = s" and "stage_scaleY v = s" and "0 < s"
    and "k = strokeWidth sel d"
  shows "\<exists>b c. snd (handleTransformEnd (transformGesture v k ps (rectNode d)) (det_id d) [d])
                  = [d\<lparr>box := b\<rparr>]
           \<and> snd (handleDragEnd (dragTo nx ny (rectNode d)) (det_id d) [d]) = [d\<lparr>box := c\<rparr>]
           \<and> x1 b < x2 b \<and> y1 b < y2 b
           \<and> (case lastAccepted ps of
                 None \<Rightarrow> b = box d
               | Some p \<Rightarrow>
                   5 \<le> box_width p \<and> 5 \<le> box_height p
                   \<and> x1 b = (box_x p + k / 2 * box_width p / (x2 (box d) - x1 (box d) + k)
                              - stage_x v) / s
                   \<and> y1 b = (box_y p + k / 2 * box_height p / (y2 (box d) - y1 (box d) + k)
                              - stage_y v) / s
                   \<and> x2 b - x1 b = (x2 (box d) - x1 (box d))
                                      * (box_width p / (s * (x2 (box d) - x1 (box d) + k)))
                   \<and> y2 b - y1 b = (y2 (box d) - y1 (box d))
                                      * (box_height p / (s * (y2 (box d) - y1 (box d) + k)))
                   \<and> 5 * (x2 (box d) - x1 (box d)) / (s * (x2 (box d) - x1 (box d) + k))
                        \<le> x2 b - x1 b
                   \<and> 5 * (y2 (box d) - y1 (box d)) / (s * (y2 (box d) - y1 (box d) + k))
                        \<le> y2 b - y1 b)
           \<and> (box_width q < 5 \<or> box_height q < 5 \<longrightarrow>
                 transformGesture v k (ps @ [q]) (rectNode d)
                   = transformGesture v k ps (rectNode d))
           \<and> x1 c = nx \<and> y1 c = ny
           \<and> x2 c - x1 c = x2 (box d) - x1 (box d) \<and> y2 c - y1 c = y2 (box d) - y1 (box d)"
proof -
  let ?w = "x2 (box d) - x1 (box d)" and ?h = "y2 (box d) - y1 (box d)"
  let ?c = "\<lparr>x1 = nx, y1 = ny, x2 = nx + ?w, y2 = ny + ?h\<rparr>"
  have w: "0 < ?w" and h: "0 < ?h"
    using assms(1,2) by simp_all
  have k: "0 \<le> k"
    unfolding assms(6) by (rule strokeWidth_nonneg)
  have sx: "0 < stage_scaleX v" and sy: "0 < stage_scaleY v"
    using assms(3,4,5) by simp_all
  note closed = transformGesture_closed_form [OF k sx sy rectNode_positive [OF assms(1,2)]]
  have drag: "snd (handleDragEnd (dragTo nx ny (rectNode d)) (det_id d) [d]) = [d\<lparr>box := ?c\<rparr>]"
    by (rule drag_commit)
  have cx: "x1 ?c = nx \<and> y1 ?c = ny \<and> x2 ?c - x1 ?c = ?w \<and> y2 ?c - y1 ?c = ?h"
    by simp
  have rej: "box_width q < 5 \<or> box_height q < 5 \<longrightarrow>
               transformGesture v k (ps @ [q]) (rectNode d) = transformGesture v k ps (rectNode d)"
    by (simp add: closed lastAccepted_snoc_rejected)
  show ?thesis
  proof (cases "lastAccepted ps")
    case None
    then have "transformGesture v k ps (rectNode d) = rectNode d"
      by (simp add: closed)
    then have "snd (handleTransformEnd (transformGesture v k ps (rectNode d)) (det_id d) [d])
                 = [d\<lparr>box := box d\<rparr>]"
      by (simp add: commit_rectNode)
    moreover have "x1 (box d) < x2 (box d) \<and> y1 (box d) < y2 (box d)"
      using w h by simp
    moreover have "(case lastAccepted ps of None \<Rightarrow> box d = box d | Some p \<Rightarrow> False)"
      using None by simp
    ultimately show ?thesis
      using drag cx rej None
      apply -
      apply (rule exI [of _ "box d"])
      apply (rule exI [of _ ?c])
      apply simp
      done
  next
    case (Some p)
    from lastAccepted_passes [OF Some] have pw: "5 \<le> box_width p" and ph: "5 \<le> box_height p"
      by auto
    let ?x = "(box_x p + k / 2 * box_width p / (?w + k) - stage_x v) / s"
    let ?y = "(box_y p + k / 2 * box_height p / (?h + k) - stage_y v) / s"
    let ?ew = "?w * (box_width p / (s * (?w + k)))"
    let ?eh = "?h * (box_height p / (s * (?h + k)))"
    let ?b = "\<lparr>x1 = ?x, y1 = ?y, x2 = ?x + ?ew, y2 = ?y + ?eh\<rparr>"
    from Some have "transformGesture v k ps (rectNode d) = fittedNode v k p (rectNode d)"
      by (simp add: closed)
    then have commit: "snd (handleTransformEnd (transformGesture v k ps (rectNode d)) (det_id d) [d])
                         = [d\<lparr>box := ?b\<rparr>]"
      by (simp add: commit_fittedNode assms(3,4))
    have ew: "0 < ?ew"
      by (rule extent_positive [OF w k assms(5) pw])
    have eh: "0 < ?eh"
      by (rule extent_positive [OF h k assms(5) ph])
    have bw: "5 * ?w / (s * (?w + k)) \<le> ?ew"
      by (rule extent_bound [OF w k assms(5) pw])
    have bh: "5 * ?h / (s * (?h + k)) \<le> ?eh"
      by (rule extent_bound [OF h k assms(5) ph])
    have ext: "x2 ?b - x1 ?b = ?ew \<and> y2 ?b - y1 ?b = ?eh \<and> x1 ?b = ?x \<and> y1 ?b = ?y"
      by simp
    have ord: "x1 ?b < x2 ?b \<and> y1 ?b < y2 ?b"
      using ew eh by simp
    show ?thesis
      apply (rule exI [of _ ?b])
      apply (rule exI [of _ ?c])
      apply (intro conjI)
      subgoal by (rule commit)
      subgoal by (rule drag)
      subgoal using ord by blast
      subgoal using ord by blast
      subgoal using Some pw ph ext bw bh by simp
      subgoal by (rule rej)
      subgoal by simp
      subgoal by simp
      subgoal by simp
      subgoal by simp
      done
  qed
qed

text \<open>
  The statement for the selected box \<open>a\<close>: at scale 1 with two proposals that both fail
  (the entry stays as it was), and at scale one half with three proposals of which the
  second fails and the third, 5 by 5 screen units, passes (the committed box measures
  50/7 image pixels each way), together with a drag to \<open>(3, 4)\<close> and a further failing
  proposal.
\<close>

theorem gesture_commit_box_witness:
  "5 \<le> x2 (box ex_a) - x1 (box ex_a) \<and> 5 \<le> y2 (box ex_a) - y1 (box ex_a)
   \<and> stage_scaleX ex_stage1 = 1 \<and> stage_scaleY ex_stage1 = 1 \<and> (0::real) < 1
   \<and> 4 = strokeWidth (Some ''a'') ex_a
   \<and> lastAccepted [ex_proposal_two, ex_proposal_thin] = None
   \<and> snd (handleTransformEnd
            (transformGesture ex_stage1 4 [ex_proposal_two, ex_proposal_thin] (rectNode ex_a))
            (det_id ex_a) [ex_a]) = [ex_a]
   \<and> stage_scaleX ex_stage_half = 0.5 \<and> stage_scaleY ex_stage_half = 0.5 \<and> (0::real) < 0.5
   \<and> lastAccepted [ex_proposal_eight, ex_proposal_two, ex_proposal_small]
        = Some ex_proposal_small
   \<and> (box_width ex_proposal_thin < 5 \<or> box_height ex_proposal_thin < 5)
   \<and> (\<exists>b c. snd (handleTransformEnd
                    (transformGesture ex_stage_half 4
                       [ex_proposal_eight, ex_proposal_two, ex_proposal_small] (rectNode ex_a))
                    (det_id ex_a) [ex_a]) = [ex_a\<lparr>box := b\<rparr>]
          \<and> snd (handleDragEnd (dragTo 3 4 (rectNode ex_a)) (det_id ex_a) [ex_a])
              = [ex_a\<lparr>box := c\<rparr>]
          \<and> x1 b < x2 b \<and> y1 b < y2 b
          \<and> x2 b - x1 b = 50 / 7 \<and> y2 b - y1 b = 50 / 7
          \<and> x1 c = 3 \<and> y1 c = 4 \<and> x2 c - x1 c = 10 \<and> y2 c - y1 c = 10)
   \<and> transformGesture ex_stage_half 4
        ([ex_proposal_eight, ex_proposal_two, ex_proposal_small] @ [ex_proposal_thin])
        (rectNode ex_a)
      = transformGesture ex_stage_half 4
          [ex_proposal_eight, ex_proposal_two, ex_proposal_small] (rectNode ex_a)"
proof -
  have a: "5 \<le> x2 (box ex_a) - x1 (box ex_a)" and b: "5 \<le> y2 (box ex_a) - y1 (box ex_a)"
    and ext: "x2 (box ex_a) - x1 (box ex_a) = 10" "y2 (box ex_a) - y1 (box ex_a) = 10"
    by (simp_all add: ex_a_def)
  have one: "stage_scaleX ex_stage1 = 1" "stage_scaleY ex_stage1 = 1"
    and half: "stage_scaleX ex_stage_half = 0.5" "stage_scaleY ex_stage_half = 0.5"
    by (simp_all add: ex_stage1_def ex_stage_half_def)
  have k: "4 = strokeWidth (Some ''a'') ex_a"
    by (simp add: strokeWidth_def ex_a_def)
  have pos: "(0::real) < 0.5" "(0::real) < 1"
    by simp_all
  have la1: "lastAccepted [ex_proposal_two, ex_proposal_thin] = None"
    and la2: "lastAccepted [ex_proposal_eight, ex_proposal_two, ex_proposal_small]
                = Some ex_proposal_small"
    and thin: "box_width ex_proposal_thin < 5 \<or> box_height ex_proposal_thin < 5"
    and sz: "box_width ex_proposal_small = 5" "box_height ex_proposal_small = 5"
    by (simp_all add: ex_proposal_two_def ex_proposal_thin_def ex_proposal_eight_def
        ex_proposal_small_def)
  have r1: "snd (handleTransformEnd
            (transformGesture ex_stage1 4 [ex_proposal_two, ex_proposal_thin] (rectNode ex_a))
            (det_id ex_a) [ex_a]) = [ex_a]"
    using gesture_commit_box [OF a b one pos(2) k, of "[ex_proposal_two, ex_proposal_thin]" 3 4
        ex_proposal_thin]
    unfolding la1 by auto
  note t2 = gesture_commit_box [OF a b half pos(1) k,
      of "[ex_proposal_eight, ex_proposal_two, ex_proposal_small]" 3 4 ex_proposal_thin]
  from t2 obtain b0 c0 where
    f1: "snd (handleTransformEnd
                (transformGesture ex_stage_half 4
                   [ex_proposal_eight, ex_proposal_two, ex_proposal_small] (rectNode ex_a))
                (det_id ex_a) [ex_a]) = [ex_a\<lparr>box := b0\<rparr>]"
    and f2: "snd (handleDragEnd (dragTo 3 4 (rectNode ex_a)) (det_id ex_a) [ex_a])
               = [ex_a\<lparr>box := c0\<rparr>]"
    and f3: "x1 b0 < x2 b0" "y1 b0 < y2 b0"
    and f4: "case lastAccepted [ex_proposal_eight, ex_proposal_two, ex_proposal_small] of
               None \<Rightarrow> b0 = box ex_a
             | Some p \<Rightarrow>
                 5 \<le> box_width p \<and> 5 \<le> box_height p
                 \<and> x1 b0 = (box_x p + 4 / 2 * box_width p / (x2 (box ex_a) - x1 (box ex_a) + 4)
                            - stage_x ex_stage_half) / 0.5
                 \<and> y1 b0 = (box_y p + 4 / 2 * box_height p / (y2 (box ex_a) - y1 (box ex_a) + 4)
                            - stage_y ex_stage_half) / 0.5
                 \<and> x2 b0 - x1 b0 = (x2 (box ex_a) - x1 (box ex_a))
                                    * (box_width p / (0.5 * (x2 (box ex_a) - x1 (box ex_a) + 4)))
                 \<and> y2 b0 - y1 b0 = (y2 (box ex_a) - y1 (box ex_a))
                                    * (box_height p / (0.5 * (y2 (box ex_a) - y1 (box ex_a) + 4)))
                 \<and> 5 * (x2 (box ex_a) - x1 (box ex_a)) / (0.5 * (x2 (box ex_a) - x1 (box ex_a) + 4))
                      \<le> x2 b0 - x1 b0
                 \<and> 5 * (y2 (box ex_a) - y1 (box ex_a)) / (0.5 * (y2 (box ex_a) - y1 (box ex_a) + 4))
                      \<le> y2 b0 - y1 b0"
    and f5: "x1 c0 = 3" "y1 c0 = 4" "x2 c0 - x1 c0 = x2 (box ex_a) - x1 (box ex_a)"
      "y2 c0 - y1 c0 = y2 (box ex_a) - y1 (box ex_a)"
    by blast
  from f4 have f6: "x2 b0 - x1 b0 = 50 / 7" "y2 b0 - y1 b0 = 50 / 7"
    unfolding la2 ext by (simp_all add: sz)
  have r2: "\<exists>b c. snd (handleTransformEnd
                    (transformGesture ex_stage_half 4
                       [ex_proposal_eight, ex_proposal_two, ex_proposal_small] (rectNode ex_a))
                    (det_id ex_a) [ex_a]) = [ex_a\<lparr>box := b\<rparr>]
          \<and> snd (handleDragEnd (dragTo 3 4 (rectNode ex_a)) (det_id ex_a) [ex_a])
              = [ex_a\<lparr>box := c\<rparr>]
          \<and> x1 b < x2 b \<and> y1 b < y2 b
          \<and> x2 b - x1 b = 50 / 7 \<and> y2 b - y1 b = 50 / 7
          \<and> x1 c = 3 \<and> y1 c = 4 \<and> x2 c - x1 c = 10 \<and> y2 c - y1 c = 10"
    apply (rule exI [of _ b0])
    apply (rule exI [of _ c0])
    using f1 f2 f3 f5 f6 ext apply simp
    done
  have r3: "transformGesture ex_stage_half 4
        ([ex_proposal_eight, ex_proposal_two, ex_proposal_small] @ [ex_proposal_thin])
        (rectNode ex_a)
      = transformGesture ex_stage_half 4
          [ex_proposal_eight, ex_proposal_two, ex_proposal_small] (rectNode ex_a)"
    using t2 thin by blast
  show ?thesis
    apply (intro conjI)
    using a b one half k la1 la2 thin r1 r2 r3 apply simp_all
    done
qed

end
